theory Spec2Isabelle
  imports Complex_Main "HOL-Library.Char_ord" "HOL-Library.List_Lexorder"
begin

section \<open>Values, exceptions and the script's outcome\<close>

text \<open>
  The program is one Streamlit script, \<^verbatim>\<open>app.py\<close>, run from top to bottom on every
  page load and on every form submission. One run is modelled as a function from the
  things the run reads (the two files and the state of the widgets) to the list of
  calls it makes on the page, in order, and the way it ends.

  Strings are byte lists holding the UTF-8 encoding of the Python string. Equality of
  the encodings is equality of the strings, and the lexicographic order of the bytes is
  the order of the code points, which is the order Python's \<^verbatim>\<open>sorted\<close> uses on
  \<^verbatim>\<open>str\<close>. The numbers of the form are Python floats; they are modelled as reals, so
  a NaN has no counterpart (the widgets never return one).
\<close>

datatype exc_class =
    FileNotFoundError
  | KeyError
  | ValueError
  | StreamlitAPIException
  | OtherException
  | NonException

text \<open>
  An exception is its class and the text \<^verbatim>\<open>str(e)\<close> gives. \<open>OtherException\<close> stands
  for any other subclass of \<^verbatim>\<open>Exception\<close>, \<open>NonException\<close> for the classes
  that derive from \<^verbatim>\<open>BaseException\<close> only (\<^verbatim>\<open>KeyboardInterrupt\<close>,
  \<^verbatim>\<open>SystemExit\<close>), which \<^verbatim>\<open>except Exception\<close> lets through.
\<close>

datatype py_exc = PyExc exc_class string

fun str :: "py_exc \<Rightarrow> string" where
  "str (PyExc c msg) = msg"

fun isinstance_Exception :: "py_exc \<Rightarrow> bool" where
  "isinstance_Exception (PyExc c msg) = (c \<noteq> NonException)"

fun isinstance_FileNotFoundError :: "py_exc \<Rightarrow> bool" where
  "isinstance_FileNotFoundError (PyExc c msg) = (c = FileNotFoundError)"

datatype pyval = PyNone | PyStr string | PyFloat real

text \<open>
  \<open>A_grave\<close> is the letter U+00C0 of the two values of the Type selector, in UTF-8.
\<close>

definition A_grave :: string where
  "A_grave = [CHR 0xC3, CHR 0x80]"

definition a_louer :: string where
  "a_louer = A_grave @ '' Louer''"

definition a_vendre :: string where
  "a_vendre = A_grave @ '' Vendre''"

section \<open>The dataset and the city-to-region index (lines 57 to 67)\<close>

text \<open>
  A data frame is its header and its rows. Of a row only the cells of the columns
  \<^verbatim>\<open>city\<close> and \<^verbatim>\<open>region\<close> are kept, the only ones the script reads; when the
  header lacks one of the two names, reading that column raises \<^verbatim>\<open>KeyError\<close> and
  the field of the rows is never looked at.
\<close>

record property_record =
  rec_city :: string
  rec_region :: string

record dataframe =
  columns :: "string list"
  records :: "property_record list"

text \<open>\<^verbatim>\<open>Series.unique()\<close>: the distinct values in order of first appearance.\<close>

fun unique :: "'a list \<Rightarrow> 'a list" where
  "unique [] = []"
| "unique (x # xs) = x # unique (filter (\<lambda>y. y \<noteq> x) xs)"

text \<open>\<^verbatim>\<open>sorted(...)\<close> on strings.\<close>

definition sorted_py :: "string list \<Rightarrow> string list" where
  "sorted_py xs = sort xs"

definition quoted :: "string \<Rightarrow> string" where
  "quoted s = [CHR 0x27] @ s @ [CHR 0x27]"

text \<open>\<^verbatim>\<open>df['city']\<close>.\<close>

definition df_city :: "dataframe \<Rightarrow> py_exc + string list" where
  "df_city df =
     (if ''city'' \<in> set (columns df) then Inr (map rec_city (records df))
      else Inl (PyExc KeyError (quoted ''city'')))"

text \<open>\<^verbatim>\<open>df[df['city'] == city]['region']\<close>.\<close>

definition df_region_of_city :: "dataframe \<Rightarrow> string \<Rightarrow> py_exc + string list" where
  "df_region_of_city df c =
     (if ''city'' \<notin> set (columns df) then Inl (PyExc KeyError (quoted ''city''))
      else if ''region'' \<notin> set (columns df) then Inl (PyExc KeyError (quoted ''region''))
      else Inr (map rec_region (filter (\<lambda>r. rec_city r = c) (records df))))"

text \<open>
  The dictionary comprehension of line 67, one key after the other; the first
  exception ends it.
\<close>

fun dict_comp ::
  "dataframe \<Rightarrow> string list \<Rightarrow> (string \<rightharpoonup> string list) \<Rightarrow> py_exc + (string \<rightharpoonup> string list)"
where
  "dict_comp df [] d = Inr d"
| "dict_comp df (c # cs) d =
     (case df_region_of_city df c of
        Inl e \<Rightarrow> Inl e
      | Inr col \<Rightarrow> dict_comp df cs (d(c \<mapsto> sorted_py (unique col))))"

text \<open>Lines 66 and 67: \<open>cities\<close> and \<open>city_to_regions\<close>.\<close>

definition build_index ::
  "dataframe \<Rightarrow> py_exc + (string list \<times> (string \<rightharpoonup> string list))"
where
  "build_index df =
     (case df_city df of
        Inl e \<Rightarrow> Inl e
      | Inr col \<Rightarrow>
          (let cities = sorted_py (unique col) in
           case dict_comp df cities Map.empty of
             Inl e \<Rightarrow> Inl e
           | Inr city_to_regions \<Rightarrow> Inr (cities, city_to_regions)))"

text \<open>
  \<^verbatim>\<open>city_to_regions[city]\<close>. The key is what the City selector returned: a string, or
  \<^verbatim>\<open>None\<close>, which no key of the dictionary is.
\<close>

definition getitem :: "(string \<rightharpoonup> string list) \<Rightarrow> string option \<Rightarrow> py_exc + string list" where
  "getitem d k =
     (case k of
        Some s \<Rightarrow> (case d s of Some v \<Rightarrow> Inr v | None \<Rightarrow> Inl (PyExc KeyError (quoted s)))
      | None \<Rightarrow> Inl (PyExc KeyError ''None''))"

section \<open>The page: calls in order, and how a run ends\<close>

text \<open>
  \<open>feature_table\<close> is the data frame built for the model: the columns in the order
  of the dictionary literal of lines 139 to 147, each with its list of cells.
  \<open>model\<close> is what \<^verbatim>\<open>joblib.load\<close> returns, seen through its only use, the
  expression \<^verbatim>\<open>model.predict(input_data)[0]\<close>: the number it evaluates to, or the
  exception raised while evaluating it.
\<close>

type_synonym feature_table = "(string \<times> pyval list) list"

type_synonym model = "feature_table \<Rightarrow> py_exc + real"

text \<open>
  The calls a run makes, in the order it makes them. \<open>Page_header\<close> stands for the
  static calls of lines 7 to 48 (page configuration, style sheet, title, introduction),
  \<open>Page_footer\<close> for those of lines 170 to 188 (instructions and footer). The
  calls that only lay the page out (\<^verbatim>\<open>st.form\<close>, \<^verbatim>\<open>st.columns\<close>) are left out. A
  widget call carries its label and the arguments that decide its value; the help texts
  are left out. \<open>St_success p\<close> is the call of line 152, whose text is the price
  \<open>p\<close> formatted with two decimals.
\<close>

datatype ui_event =
    Page_header
  | St_error string
  | St_subheader string
  | St_selectbox string "string list" nat
  | St_slider string real real real real
  | St_number_input string real real real real
  | St_form_submit_button string
  | Model_predict feature_table
  | St_success real
  | St_markdown string
  | St_warning string
  | Page_footer

text \<open>
  A run ends by reaching the end of the script, by \<^verbatim>\<open>st.stop()\<close>, or by an exception
  nothing catches. A part of the script is the calls it made and either the way it
  halted or the value it went on with.
\<close>

datatype halt = Stopped | Uncaught py_exc

type_synonym 'a script = "ui_event list \<times> (halt + 'a)"

definition ret :: "'a \<Rightarrow> 'a script" where
  "ret x = ([], Inr x)"

definition emit :: "ui_event \<Rightarrow> unit script" where
  "emit ev = ([ev], Inr ())"

definition raise :: "py_exc \<Rightarrow> 'a script" where
  "raise e = ([], Inl (Uncaught e))"

definition st_stop :: "'a script" where
  "st_stop = ([], Inl Stopped)"

definition eval_py :: "py_exc + 'a \<Rightarrow> 'a script" where
  "eval_py r = (case r of Inl e \<Rightarrow> raise e | Inr x \<Rightarrow> ret x)"

definition then_run :: "'a script \<Rightarrow> ('a \<Rightarrow> 'b script) \<Rightarrow> 'b script" where
  "then_run m f =
     (case m of
        (evs, Inl h) \<Rightarrow> (evs, Inl h)
      | (evs, Inr x) \<Rightarrow> (case f x of (evs', r) \<Rightarrow> (evs @ evs', r)))"

definition is_widget :: "ui_event \<Rightarrow> bool" where
  "is_widget ev =
     (case ev of
        St_selectbox l opts i \<Rightarrow> True
      | St_slider l lo hi v stp \<Rightarrow> True
      | St_number_input l lo hi v stp \<Rightarrow> True
      | St_form_submit_button l \<Rightarrow> True
      | _ \<Rightarrow> False)"

definition is_predict :: "ui_event \<Rightarrow> bool" where
  "is_predict ev = (case ev of Model_predict t \<Rightarrow> True | _ \<Rightarrow> False)"

section \<open>The widgets\<close>

text \<open>
  Streamlit tells widgets apart by the arguments of their calls: a call with other
  options or another index is another widget, which starts at its default. A
  \<open>pick\<close> is therefore the options and the index of the selector the user picked
  in, and the option picked.
\<close>

type_synonym pick = "string list \<times> nat \<times> string"

text \<open>
  \<^verbatim>\<open>st.selectbox(label, options, index)\<close>. \<open>choice\<close> is the pick the page holds
  for the selector, \<open>None\<close> while it is untouched. With no options the widget
  returns \<^verbatim>\<open>None\<close>; an index outside the options raises; a pick made in a selector
  with other options or another index does not count, and the widget returns its
  default, \<open>options ! index\<close>.
\<close>

definition st_selectbox ::
  "string \<Rightarrow> string list \<Rightarrow> nat \<Rightarrow> pick option \<Rightarrow> string option script"
where
  "st_selectbox label options index choice =
     (if options \<noteq> [] \<and> \<not> index < length options then
        raise (PyExc StreamlitAPIException
          (''Selectbox index must be greater than or equal to 0 '' @
           ''and less than the length of options.''))
      else
        then_run (emit (St_selectbox label options index)) (\<lambda>_.
        ret (if options = [] then None
             else case choice of
                    None \<Rightarrow> Some (options ! index)
                  | Some (opts, i, s) \<Rightarrow>
                      if opts = options \<and> i = index \<and> s \<in> set options then Some s
                      else Some (options ! index))))"

text \<open>
  \<^verbatim>\<open>st.slider\<close> and \<^verbatim>\<open>st.number_input\<close> with float bounds. A default \<open>v\<close>
  outside the bounds raises (the text of the exception is abridged: Streamlit's names
  the numbers). Otherwise the widget returns the value it holds, which is \<open>v\<close>
  while it is untouched. The page offers the user only values between
  \<open>min_value\<close> and \<open>max_value\<close>, so a value outside them was not set in this
  widget, and the widget is at its default: what the call returns always lies between
  the bounds.
\<close>

definition st_slider ::
  "string \<Rightarrow> real \<Rightarrow> real \<Rightarrow> real \<Rightarrow> real \<Rightarrow> real option \<Rightarrow> real script"
where
  "st_slider label min_value max_value v step choice =
     (if v < min_value \<or> max_value < v then
        raise (PyExc StreamlitAPIException
          ''The default value must lie between the min_value and the max_value, inclusively.'')
      else
        then_run (emit (St_slider label min_value max_value v step)) (\<lambda>_.
        ret (case choice of
               None \<Rightarrow> v
             | Some x \<Rightarrow> if min_value \<le> x \<and> x \<le> max_value then x else v)))"

definition st_number_input ::
  "string \<Rightarrow> real \<Rightarrow> real \<Rightarrow> real \<Rightarrow> real \<Rightarrow> real option \<Rightarrow> real script"
where
  "st_number_input label min_value max_value v step choice =
     (if v < min_value \<or> max_value < v then
        raise (PyExc StreamlitAPIException
          ''The default value must lie between the min_value and the max_value.'')
      else
        then_run (emit (St_number_input label min_value max_value v step)) (\<lambda>_.
        ret (case choice of
               None \<Rightarrow> v
             | Some x \<Rightarrow> if min_value \<le> x \<and> x \<le> max_value then x else v)))"

text \<open>\<^verbatim>\<open>xs.index(v)\<close>: the first position of \<open>v\<close>, \<^verbatim>\<open>ValueError\<close> when absent.\<close>

fun index_py :: "string list \<Rightarrow> string \<Rightarrow> nat option" where
  "index_py [] v = None"
| "index_py (x # xs) v = (if x = v then Some 0 else map_option Suc (index_py xs v))"

text \<open>\<^verbatim>\<open>xs.index(v) if v in xs else 0\<close>, the index argument of lines 95 and 103.\<close>

definition index_or_0 :: "string list \<Rightarrow> string \<Rightarrow> py_exc + nat" where
  "index_or_0 xs v =
     (if v \<in> set xs then
        (case index_py xs v of
           Some i \<Rightarrow> Inr i
         | None \<Rightarrow> Inl (PyExc ValueError (quoted v @ '' is not in list'')))
      else Inr 0)"

section \<open>The form (lines 70 to 128)\<close>

text \<open>
  What the page holds when the run starts: for each selector the pick, for each number
  widget the value set, \<open>None\<close> where the user has not touched the widget, and
  whether the run was started by the submit button.
\<close>

record widget_state =
  sel_category :: "pick option"
  sel_type_property :: "pick option"
  sel_city :: "pick option"
  sel_region :: "pick option"
  val_room_count :: "real option"
  val_bathroom_count :: "real option"
  val_size :: "real option"
  clicked :: bool

text \<open>The variables the form assigns; \<open>size_m2\<close> is the script's \<^verbatim>\<open>size\<close>.\<close>

record form_values =
  category :: "string option"
  type_property :: "string option"
  city :: "string option"
  region :: "string option"
  room_count :: real
  bathroom_count :: real
  size_m2 :: real
  submitted :: bool

definition category_options :: "string list" where
  "category_options =
     [''Appartements'', ''Villas'', ''Locaux industriels'', ''Offices'',
      ''Vacation Rentals'', ''Shared Housing'']"

definition type_options :: "string list" where
  "type_options = [a_louer, a_vendre]"

definition subheader_label :: string where
  "subheader_label = [CHR 0xF0, CHR 0x9F, CHR 0x93, CHR 0x9D] @ '' Property Details''"

definition size_label :: string where
  "size_label = ''Size (m'' @ [CHR 0xC2, CHR 0xB2] @ '')''"

definition submit_label :: string where
  "submit_label = [CHR 0xF0, CHR 0x9F, CHR 0x94, CHR 0x8D] @ '' Predict Price''"

definition property_form ::
  "string list \<Rightarrow> (string \<rightharpoonup> string list) \<Rightarrow> widget_state \<Rightarrow> form_values script"
where
  "property_form cities city_to_regions w =
     then_run (emit (St_subheader subheader_label)) (\<lambda>_.
     then_run (st_selectbox ''Category'' category_options 0 (sel_category w)) (\<lambda>cat.
     then_run (st_selectbox ''Type'' type_options 0 (sel_type_property w)) (\<lambda>typ.
     then_run (eval_py (index_or_0 cities ''Tunis'')) (\<lambda>city_index.
     then_run (st_selectbox ''City'' cities city_index (sel_city w)) (\<lambda>cty.
     then_run (eval_py (getitem city_to_regions cty)) (\<lambda>regions.
     then_run (eval_py (index_or_0 regions ''Autres villes'')) (\<lambda>region_index.
     then_run (st_selectbox ''Region'' regions region_index (sel_region w)) (\<lambda>reg.
     then_run (st_slider ''Number of Rooms'' 0 10 2 1 (val_room_count w)) (\<lambda>rooms.
     then_run (st_slider ''Number of Bathrooms'' 0 5 1 1 (val_bathroom_count w)) (\<lambda>baths.
     then_run (st_number_input size_label 20 1000 100 5 (val_size w)) (\<lambda>sz.
     then_run (emit (St_form_submit_button submit_label)) (\<lambda>_.
     ret \<lparr>category = cat, type_property = typ, city = cty, region = reg,
          room_count = rooms, bathroom_count = baths, size_m2 = sz,
          submitted = clicked w\<rparr>))))))))))))"

section \<open>Processing a submission (lines 130 to 167)\<close>

definition cell :: "string option \<Rightarrow> pyval" where
  "cell v = (case v of None \<Rightarrow> PyNone | Some s \<Rightarrow> PyStr s)"

text \<open>Lines 139 to 147.\<close>

definition input_data :: "form_values \<Rightarrow> feature_table" where
  "input_data fv =
     [(''category'', [cell (category fv)]),
      (''room_count'', [PyFloat (room_count fv)]),
      (''bathroom_count'', [PyFloat (bathroom_count fv)]),
      (''size'', [PyFloat (size_m2 fv)]),
      (''type'', [cell (type_property fv)]),
      (''city'', [cell (city fv)]),
      (''region'', [cell (region fv)])]"

definition size_error :: string where
  "size_error = ''Size must be greater than 0.''"

definition count_error :: string where
  "count_error = ''Room count and bathroom count cannot be negative.''"

definition rental_label :: string where
  "rental_label = ''This is an **estimated monthly rental price**.''"

definition purchase_label :: string where
  "purchase_label = ''This is an **estimated purchase price**.''"

definition high_rent_warning :: string where
  "high_rent_warning =
     ''The predicted rental price seems unusually high. Verify input details or model data.''"

definition low_sale_warning :: string where
  "low_sale_warning =
     ''The predicted sale price seems unusually low. Verify input details or model data.''"

text \<open>Lines 152 to 164, the rest of the \<^verbatim>\<open>try\<close> block once the price is there.\<close>

definition show_price :: "string option \<Rightarrow> real \<Rightarrow> unit script" where
  "show_price typ predicted_price =
     then_run (emit (St_success predicted_price)) (\<lambda>_.
     then_run (if typ = Some a_louer then emit (St_markdown rental_label)
               else emit (St_markdown purchase_label)) (\<lambda>_.
     if typ = Some a_louer \<and> predicted_price > 10000 then emit (St_warning high_rent_warning)
     else if typ = Some a_vendre \<and> predicted_price < 10000 then emit (St_warning low_sale_warning)
     else ret ()))"

text \<open>
  Lines 131 to 167. \<open>Model_predict t\<close> records that the model was called on
  \<open>t\<close>; \<^verbatim>\<open>except Exception\<close> catches what the call raises unless its class is
  outside \<^verbatim>\<open>Exception\<close>.
\<close>

definition process_submission :: "model \<Rightarrow> form_values \<Rightarrow> unit script" where
  "process_submission mdl fv =
     (if \<not> submitted fv then ret ()
      else if size_m2 fv \<le> 0 then emit (St_error size_error)
      else if room_count fv < 0 \<or> bathroom_count fv < 0 then emit (St_error count_error)
      else
        then_run (emit (Model_predict (input_data fv))) (\<lambda>_.
        case mdl (input_data fv) of
          Inr predicted_price \<Rightarrow> show_price (type_property fv) predicted_price
        | Inl e \<Rightarrow>
            if isinstance_Exception e
            then emit (St_error (''Error making prediction: '' @ str e))
            else raise e))"

section \<open>One run of the script\<close>

text \<open>
  What a run reads: the outcome of \<^verbatim>\<open>joblib.load\<close> on the model file, the outcome of
  \<^verbatim>\<open>pd.read_csv\<close> on the dataset file, and the widgets.
\<close>

record session =
  joblib_load :: "py_exc + model"
  read_csv :: "py_exc + dataframe"
  widgets :: widget_state

definition model_error :: string where
  "model_error =
     ''Model file '' @ quoted ''property_price_model.pkl'' @
     '' not found. Please ensure it is in the same directory.''"

text \<open>Lines 51 to 55.\<close>

definition load_model :: "session \<Rightarrow> model script" where
  "load_model s =
     (case joblib_load s of
        Inr mdl \<Rightarrow> ret mdl
      | Inl e \<Rightarrow>
          if isinstance_FileNotFoundError e
          then then_run (emit (St_error model_error)) (\<lambda>_. st_stop)
          else raise e)"

text \<open>Lines 58 to 63; nothing catches what \<^verbatim>\<open>read_csv\<close> raises.\<close>

definition load_data :: "session \<Rightarrow> dataframe script" where
  "load_data s = eval_py (read_csv s)"

definition run_app :: "session \<Rightarrow> unit script" where
  "run_app s =
     then_run (emit Page_header) (\<lambda>_.
     then_run (load_model s) (\<lambda>mdl.
     then_run (load_data s) (\<lambda>df.
     then_run (eval_py (build_index df)) (\<lambda>(cities, city_to_regions).
     then_run (property_form cities city_to_regions (widgets s)) (\<lambda>fv.
     then_run (process_submission mdl fv) (\<lambda>_.
     emit Page_footer))))))"

section \<open>Auxiliary facts\<close>

lemma set_unique: "set (unique xs) = set xs"
  by (induction xs rule: unique.induct) auto

lemma distinct_unique: "distinct (unique xs)"
  by (induction xs rule: unique.induct) (auto simp: set_unique)

lemma dict_comp_ok:
  assumes "''city'' \<in> set (columns df)" "''region'' \<in> set (columns df)"
  shows "\<exists>d'. dict_comp df cs d = Inr d' \<and>
           (\<forall>c. d' c = (if c \<in> set cs
                         then Some (sorted_py (unique (map rec_region (filter (\<lambda>r. rec_city r = c) (records df)))))
                         else d c))"
  using assms
proof (induction cs arbitrary: d)
  case Nil
  then show ?case by simp
next
  case (Cons a cs)
  let ?d = "d(a \<mapsto> sorted_py (unique (map rec_region (filter (\<lambda>r. rec_city r = a) (records df)))))"
  from Cons.IH [OF Cons.prems, of ?d] obtain d' where
    d': "dict_comp df cs ?d = Inr d'"
    "\<forall>c. d' c = (if c \<in> set cs
                         then Some (sorted_py (unique (map rec_region (filter (\<lambda>r. rec_city r = c) (records df)))))
                         else ?d c)" by blast
  show ?case using Cons.prems d' by (auto simp: df_region_of_city_def)
qed

lemma index_py_Some:
  "v \<in> set xs \<Longrightarrow> \<exists>i. index_py xs v = Some i \<and> i < length xs \<and> xs ! i = v"
  by (induction xs) auto

lemma index_or_0_total:
  "\<exists>i. index_or_0 xs v = Inr i \<and> (xs \<noteq> [] \<longrightarrow> i < length xs) \<and>
        (if v \<in> set xs then xs ! i = v else i = 0)"
proof (cases "v \<in> set xs")
  case True
  from index_py_Some [OF True] obtain i where "index_py xs v = Some i" "i < length xs" "xs ! i = v"
    by blast
  with True show ?thesis by (simp add: index_or_0_def)
next
  case False
  then show ?thesis by (simp add: index_or_0_def)
qed

lemma st_selectbox_in_range:
  "options = [] \<or> index < length options \<Longrightarrow>
   st_selectbox label options index choice =
     ([St_selectbox label options index],
      Inr (if options = [] then None
           else case choice of
                  None \<Rightarrow> Some (options ! index)
                | Some (opts, i, s) \<Rightarrow>
                    if opts = options \<and> i = index \<and> s \<in> set options then Some s
                    else Some (options ! index)))"
  by (auto simp: st_selectbox_def then_run_def emit_def ret_def)

lemma then_run_Inr: "then_run (evs, Inr x) f = (evs @ fst (f x), snd (f x))"
  by (simp add: then_run_def split: prod.splits)

lemma st_slider_eq:
  "lo \<le> v \<Longrightarrow> v \<le> hi \<Longrightarrow>
   st_slider label lo hi v stp choice =
     ([St_slider label lo hi v stp],
      Inr (case choice of None \<Rightarrow> v | Some x \<Rightarrow> if lo \<le> x \<and> x \<le> hi then x else v))"
  by (simp add: st_slider_def then_run_def emit_def ret_def not_less [symmetric])

lemma st_number_input_eq:
  "lo \<le> v \<Longrightarrow> v \<le> hi \<Longrightarrow>
   st_number_input label lo hi v stp choice =
     ([St_number_input label lo hi v stp],
      Inr (case choice of None \<Rightarrow> v | Some x \<Rightarrow> if lo \<le> x \<and> x \<le> hi then x else v))"
  by (simp add: st_number_input_def then_run_def emit_def ret_def not_less [symmetric])

lemma st_slider_bounds:
  assumes "st_slider label lo hi v stp choice = (evs, Inr x)"
  shows "lo \<le> x \<and> x \<le> hi"
  using assms
  by (auto simp: st_slider_def then_run_def emit_def ret_def raise_def
      split: if_splits option.splits)

lemma st_number_input_bounds:
  assumes "st_number_input label lo hi v stp choice = (evs, Inr x)"
  shows "lo \<le> x \<and> x \<le> hi"
  using assms
  by (auto simp: st_number_input_def then_run_def emit_def ret_def raise_def
      split: if_splits option.splits)

lemma property_form_ok:
  assumes ci: "index_or_0 cities ''Tunis'' = Inr ci"
    and cty: "st_selectbox ''City'' cities ci (sel_city w) = ([St_selectbox ''City'' cities ci], Inr cty)"
    and regs: "getitem c2r cty = Inr regions"
    and ri: "index_or_0 regions ''Autres villes'' = Inr ri"
    and reg: "st_selectbox ''Region'' regions ri (sel_region w) = ([St_selectbox ''Region'' regions ri], Inr reg)"
  shows "property_form cities c2r w =
    ([St_subheader subheader_label,
      St_selectbox ''Category'' category_options 0,
      St_selectbox ''Type'' type_options 0,
      St_selectbox ''City'' cities ci,
      St_selectbox ''Region'' regions ri,
      St_slider ''Number of Rooms'' 0 10 2 1,
      St_slider ''Number of Bathrooms'' 0 5 1 1,
      St_number_input size_label 20 1000 100 5,
      St_form_submit_button submit_label],
     Inr \<lparr>category = (case sel_category w of None \<Rightarrow> Some ''Appartements''
                        | Some (opts, i, s) \<Rightarrow>
                            if opts = category_options \<and> i = 0 \<and> s \<in> set category_options
                            then Some s else Some ''Appartements''),
          type_property = (case sel_type_property w of None \<Rightarrow> Some a_louer
                        | Some (opts, i, s) \<Rightarrow>
                            if opts = type_options \<and> i = 0 \<and> s \<in> set type_options
                            then Some s else Some a_louer),
          city = cty, region = reg,
          room_count = (case val_room_count w of None \<Rightarrow> 2
                        | Some x \<Rightarrow> if 0 \<le> x \<and> x \<le> 10 then x else 2),
          bathroom_count = (case val_bathroom_count w of None \<Rightarrow> 1
                        | Some x \<Rightarrow> if 0 \<le> x \<and> x \<le> 5 then x else 1),
          size_m2 = (case val_size w of None \<Rightarrow> 100
                        | Some x \<Rightarrow> if 20 \<le> x \<and> x \<le> 1000 then x else 100),
          submitted = clicked w\<rparr>)"
proof -
  have cat: "st_selectbox ''Category'' category_options 0 (sel_category w) =
      ([St_selectbox ''Category'' category_options 0],
       Inr (case sel_category w of None \<Rightarrow> Some ''Appartements''
                        | Some (opts, i, s) \<Rightarrow>
                            if opts = category_options \<and> i = 0 \<and> s \<in> set category_options
                            then Some s else Some ''Appartements''))"
  proof -
    have "category_options \<noteq> []" "0 < length category_options"
      "category_options ! 0 = ''Appartements''"
      by (simp_all add: category_options_def)
    then show ?thesis by (simp add: st_selectbox_in_range split: option.splits prod.splits)
  qed
  have tsel: "st_selectbox ''Type'' type_options 0 (sel_type_property w) =
      ([St_selectbox ''Type'' type_options 0],
       Inr (case sel_type_property w of None \<Rightarrow> Some a_louer
                        | Some (opts, i, s) \<Rightarrow>
                            if opts = type_options \<and> i = 0 \<and> s \<in> set type_options
                            then Some s else Some a_louer))"
  proof -
    have "type_options \<noteq> []" "0 < length type_options" "type_options ! 0 = a_louer"
      by (simp_all add: type_options_def)
    then show ?thesis by (simp add: st_selectbox_in_range split: option.splits prod.splits)
  qed
  show ?thesis
    by (simp add: property_form_def cat tsel ci cty regs ri reg st_slider_eq st_number_input_eq
        then_run_Inr emit_def ret_def eval_py_def)
qed


lemma build_index_ok:
  assumes "''city'' \<in> set (columns df)" "''region'' \<in> set (columns df)"
  shows "\<exists>cities c2r. build_index df = Inr (cities, c2r) \<and>
           sorted cities \<and> distinct cities \<and> set cities = rec_city ` set (records df) \<and>
           dom c2r = set cities \<and>
           (\<forall>c\<in>set cities. \<exists>rs. c2r c = Some rs \<and> rs \<noteq> [] \<and> sorted rs \<and> distinct rs \<and>
               set rs = {rec_region r | r. r \<in> set (records df) \<and> rec_city r = c})"
proof -
  let ?cities = "sorted_py (unique (map rec_city (records df)))"
  from dict_comp_ok [OF assms, of ?cities Map.empty] obtain d' where
    d': "dict_comp df ?cities Map.empty = Inr d'"
    "\<forall>c. d' c = (if c \<in> set ?cities
                         then Some (sorted_py (unique (map rec_region (filter (\<lambda>r. rec_city r = c) (records df)))))
                         else None)" by blast
  have b: "build_index df = Inr (?cities, d')"
    using assms d' by (simp add: build_index_def df_city_def)
  have s: "set ?cities = rec_city ` set (records df)"
    by (simp add: sorted_py_def set_unique)
  have dm: "dom d' = set ?cities" using d'(2) by (auto simp: dom_def)
  have r: "\<exists>rs. d' c = Some rs \<and> rs \<noteq> [] \<and> sorted rs \<and> distinct rs \<and>
             set rs = {rec_region r | r. r \<in> set (records df) \<and> rec_city r = c}"
    if "c \<in> set ?cities" for c
  proof -
    let ?rs = "sorted_py (unique (map rec_region (filter (\<lambda>r. rec_city r = c) (records df))))"
    have 1: "d' c = Some ?rs" using that d'(2) by simp
    have 2: "set ?rs = {rec_region r | r. r \<in> set (records df) \<and> rec_city r = c}"
      by (auto simp: sorted_py_def set_unique)
    from that s obtain r where "r \<in> set (records df)" "rec_city r = c" by auto
    then have "rec_region r \<in> {rec_region r | r. r \<in> set (records df) \<and> rec_city r = c}" by auto
    with 2 have 3: "?rs \<noteq> []" by auto
    have 4: "sorted ?rs" "distinct ?rs" by (simp_all add: sorted_py_def distinct_unique)
    from 1 2 3 4 show ?thesis by blast
  qed
  show ?thesis using b s dm r by (simp add: sorted_py_def distinct_unique)
qed

lemma process_not_submitted:
  "\<not> submitted fv \<Longrightarrow> process_submission mdl fv = ([], Inr ())"
  by (simp add: process_submission_def ret_def)

lemma process_size_error:
  "submitted fv \<Longrightarrow> size_m2 fv \<le> 0 \<Longrightarrow>
   process_submission mdl fv = ([St_error size_error], Inr ())"
  by (simp add: process_submission_def emit_def)

lemma process_count_error:
  "submitted fv \<Longrightarrow> 0 < size_m2 fv \<Longrightarrow> room_count fv < 0 \<or> bathroom_count fv < 0 \<Longrightarrow>
   process_submission mdl fv = ([St_error count_error], Inr ())"
  by (auto simp: process_submission_def emit_def)

lemma show_price_eq:
  "show_price t p =
     ([St_success p, St_markdown (if t = Some a_louer then rental_label else purchase_label)] @
      (if t = Some a_louer \<and> p > 10000 then [St_warning high_rent_warning]
       else if t = Some a_vendre \<and> p < 10000 then [St_warning low_sale_warning]
       else []),
      Inr ())"
  by (simp add: show_price_def then_run_def emit_def ret_def)

lemma process_predicted:
  assumes "submitted fv" "0 < size_m2 fv" "0 \<le> room_count fv" "0 \<le> bathroom_count fv"
    and "mdl (input_data fv) = Inr p"
  shows "process_submission mdl fv =
     (Model_predict (input_data fv) # fst (show_price (type_property fv) p), Inr ())"
  using assms
  by (simp add: process_submission_def then_run_def emit_def show_price_eq not_less [symmetric])

lemma process_caught:
  assumes "submitted fv" "0 < size_m2 fv" "0 \<le> room_count fv" "0 \<le> bathroom_count fv"
    and "mdl (input_data fv) = Inl e" "isinstance_Exception e"
  shows "process_submission mdl fv =
     ([Model_predict (input_data fv), St_error (''Error making prediction: '' @ str e)], Inr ())"
  using assms
  by (simp add: process_submission_def then_run_def emit_def not_less [symmetric])

lemma process_uncaught:
  assumes "submitted fv" "0 < size_m2 fv" "0 \<le> room_count fv" "0 \<le> bathroom_count fv"
    and "mdl (input_data fv) = Inl e" "\<not> isinstance_Exception e"
  shows "process_submission mdl fv = ([Model_predict (input_data fv)], Inl (Uncaught e))"
  using assms
  by (simp add: process_submission_def then_run_def emit_def raise_def not_less [symmetric])

lemma process_valid_head:
  assumes "submitted fv" "0 < size_m2 fv" "0 \<le> room_count fv" "0 \<le> bathroom_count fv"
  shows "\<exists>rest r. process_submission mdl fv = (Model_predict (input_data fv) # rest, r) \<and>
           (\<forall>ev\<in>set rest. \<not> is_predict ev)"
proof (cases "mdl (input_data fv)")
  case (Inl e)
  show ?thesis
  proof (cases "isinstance_Exception e")
    case True
    from assms Inl True have
      "process_submission mdl fv =
         ([Model_predict (input_data fv), St_error (''Error making prediction: '' @ str e)], Inr ())"
      by (rule process_caught)
    then show ?thesis by (simp add: is_predict_def)
  next
    case False
    from assms Inl False have
      "process_submission mdl fv = ([Model_predict (input_data fv)], Inl (Uncaught e))"
      by (rule process_uncaught)
    then show ?thesis by simp
  qed
next
  case (Inr p)
  from assms Inr have
    "process_submission mdl fv =
       (Model_predict (input_data fv) # fst (show_price (type_property fv) p), Inr ())"
    by (rule process_predicted)
  then show ?thesis by (simp add: show_price_eq is_predict_def)
qed

lemma a_louer_neq_a_vendre: "a_louer \<noteq> a_vendre"
  by (simp add: a_louer_def a_vendre_def)

lemma run_app_loaded:
  assumes "joblib_load s = Inr mdl" "read_csv s = Inr df" "build_index df = Inr (cities, c2r)"
  shows "run_app s =
     then_run ([Page_header], Inr ()) (\<lambda>_.
     then_run (property_form cities c2r (widgets s)) (\<lambda>fv.
     then_run (process_submission mdl fv) (\<lambda>_. emit Page_footer)))"
  using assms
  by (simp add: run_app_def load_model_def load_data_def eval_py_def ret_def emit_def then_run_def)

lemma run_app_model_missing:
  assumes "joblib_load s = Inl e" "isinstance_FileNotFoundError e"
  shows "run_app s = ([Page_header, St_error model_error], Inl Stopped)"
  using assms
  by (simp add: run_app_def load_model_def then_run_def emit_def st_stop_def)

lemma run_app_model_unreadable:
  assumes "joblib_load s = Inl e" "\<not> isinstance_FileNotFoundError e"
  shows "run_app s = ([Page_header], Inl (Uncaught e))"
  using assms
  by (simp add: run_app_def load_model_def then_run_def emit_def raise_def)

lemma run_app_dataset_unreadable:
  assumes "joblib_load s = Inr mdl" "read_csv s = Inl e"
  shows "run_app s = ([Page_header], Inl (Uncaught e))"
  using assms
  by (simp add: run_app_def load_model_def load_data_def eval_py_def then_run_def emit_def
      raise_def ret_def)

lemma then_run_InrD:
  assumes "then_run m f = (evs, Inr y)"
  shows "\<exists>e1 x e2. m = (e1, Inr x) \<and> f x = (e2, Inr y) \<and> evs = e1 @ e2"
  using assms by (auto simp: then_run_def split: prod.splits sum.splits)

lemma property_form_values:
  assumes "property_form cities c2r w = (evs, Inr fv)"
  shows "0 \<le> room_count fv \<and> room_count fv \<le> 10 \<and>
         0 \<le> bathroom_count fv \<and> bathroom_count fv \<le> 5 \<and>
         20 \<le> size_m2 fv \<and> size_m2 fv \<le> 1000 \<and>
         submitted fv = clicked w"
proof -
  from assms obtain rooms baths sz e1 e2 e3 where
    r: "st_slider ''Number of Rooms'' 0 10 2 1 (val_room_count w) = (e1, Inr rooms)"
    and b: "st_slider ''Number of Bathrooms'' 0 5 1 1 (val_bathroom_count w) = (e2, Inr baths)"
    and z: "st_number_input size_label 20 1000 100 5 (val_size w) = (e3, Inr sz)"
    and f: "room_count fv = rooms" "bathroom_count fv = baths" "size_m2 fv = sz"
      "submitted fv = clicked w"
    unfolding property_form_def
    by (auto dest!: then_run_InrD simp: ret_def emit_def)
  from st_slider_bounds [OF r] st_slider_bounds [OF b] st_number_input_bounds [OF z] f
  show ?thesis by simp
qed

lemma run_app_index_fails:
  assumes "joblib_load s = Inr mdl" "read_csv s = Inr df" "build_index df = Inl e"
  shows "run_app s = ([Page_header], Inl (Uncaught e))"
  using assms
  by (simp add: run_app_def load_model_def load_data_def eval_py_def then_run_def emit_def
      raise_def ret_def)

lemma build_index_no_city:
  assumes "''city'' \<notin> set (columns df)"
  shows "build_index df = Inl (PyExc KeyError (quoted ''city''))"
  using assms by (simp add: build_index_def df_city_def)

lemma sorted_first_least:
  fixes xs :: "string list"
  assumes "sorted xs" "x \<in> set xs"
  shows "xs ! 0 \<le> x"
  using assms by (cases xs) auto

lemma index_or_0_in_range:
  assumes "xs \<noteq> []"
  shows "\<exists>i. index_or_0 xs v = Inr i \<and> i < length xs \<and>
             (if v \<in> set xs then xs ! i = v else i = 0)"
  using index_or_0_total [of xs v] assms by auto

lemma selectbox_choice:
  assumes "options \<noteq> []" "index < length options"
  shows "\<exists>v. st_selectbox label options index choice =
               ([St_selectbox label options index], Inr (Some v)) \<and>
             v \<in> set options \<and> (choice = None \<longrightarrow> v = options ! index)"
  using assms by (cases choice) (auto simp: st_selectbox_in_range)

lemma property_form_sel:
  assumes "index_or_0 cities ''Tunis'' = Inr ci"
    and "st_selectbox ''City'' cities ci (sel_city w) = ([St_selectbox ''City'' cities ci], Inr cty)"
    and "getitem c2r cty = Inr regions"
    and "index_or_0 regions ''Autres villes'' = Inr ri"
    and "st_selectbox ''Region'' regions ri (sel_region w) = ([St_selectbox ''Region'' regions ri], Inr reg)"
  shows "\<exists>evs fv. property_form cities c2r w = (evs, Inr fv) \<and>
           St_selectbox ''Region'' regions ri \<in> set evs \<and> city fv = cty \<and> region fv = reg"
  unfolding property_form_ok [OF assms] by simp

text \<open>The script on two small datasets, with the widgets untouched and set.\<close>

lemma ex_build_index:
  "build_index \<lparr>columns = [''city'', ''region''],
       records = [\<lparr>rec_city = ''Tunis'', rec_region = ''Autres villes''\<rparr>]\<rparr> =
     Inr ([''Tunis''], [''Tunis'' \<mapsto> [''Autres villes'']])"
  by (simp add: build_index_def df_city_def df_region_of_city_def sorted_py_def)

lemma ex_property_form:
  "property_form [''Tunis''] [''Tunis'' \<mapsto> [''Autres villes'']]
      \<lparr>sel_category = None, sel_type_property = None, sel_city = None,
       sel_region = None, val_room_count = None, val_bathroom_count = None,
       val_size = None, clicked = True\<rparr> =
    ([St_subheader subheader_label,
      St_selectbox ''Category'' category_options 0,
      St_selectbox ''Type'' type_options 0,
      St_selectbox ''City'' [''Tunis''] 0,
      St_selectbox ''Region'' [''Autres villes''] 0,
      St_slider ''Number of Rooms'' 0 10 2 1,
      St_slider ''Number of Bathrooms'' 0 5 1 1,
      St_number_input size_label 20 1000 100 5,
      St_form_submit_button submit_label],
     Inr \<lparr>category = Some ''Appartements'', type_property = Some a_louer,
          city = Some ''Tunis'', region = Some ''Autres villes'',
          room_count = 2, bathroom_count = 1, size_m2 = 100, submitted = True\<rparr>)"
proof -
  have ci: "index_or_0 [''Tunis''] ''Tunis'' = Inr 0" by (simp add: index_or_0_def)
  have cty: "st_selectbox ''City'' [''Tunis''] 0 None =
      ([St_selectbox ''City'' [''Tunis''] 0], Inr (Some ''Tunis''))"
    by (simp add: st_selectbox_in_range)
  have regs: "getitem [''Tunis'' \<mapsto> [''Autres villes'']] (Some ''Tunis'') = Inr [''Autres villes'']"
    by (simp add: getitem_def)
  have ri: "index_or_0 [''Autres villes''] ''Autres villes'' = Inr 0" by (simp add: index_or_0_def)
  have reg: "st_selectbox ''Region'' [''Autres villes''] 0 None =
      ([St_selectbox ''Region'' [''Autres villes''] 0], Inr (Some ''Autres villes''))"
    by (simp add: st_selectbox_in_range)
  show ?thesis
    by (subst property_form_ok [where ci = 0 and cty = "Some ''Tunis''"
          and regions = "[''Autres villes'']" and ri = 0 and reg = "Some ''Autres villes''"])
       (simp_all add: ci cty regs ri reg)
qed

lemma ex_property_form_set:
  "property_form [''Tunis''] [''Tunis'' \<mapsto> [''Autres villes'']]
      \<lparr>sel_category = Some (category_options, 0, ''Villas''),
       sel_type_property = Some (type_options, 0, a_vendre), sel_city = None,
       sel_region = None, val_room_count = Some 3, val_bathroom_count = Some 2,
       val_size = Some 250, clicked = True\<rparr> =
    ([St_subheader subheader_label,
      St_selectbox ''Category'' category_options 0,
      St_selectbox ''Type'' type_options 0,
      St_selectbox ''City'' [''Tunis''] 0,
      St_selectbox ''Region'' [''Autres villes''] 0,
      St_slider ''Number of Rooms'' 0 10 2 1,
      St_slider ''Number of Bathrooms'' 0 5 1 1,
      St_number_input size_label 20 1000 100 5,
      St_form_submit_button submit_label],
     Inr \<lparr>category = Some ''Villas'', type_property = Some a_vendre,
          city = Some ''Tunis'', region = Some ''Autres villes'',
          room_count = 3, bathroom_count = 2, size_m2 = 250, submitted = True\<rparr>)"
proof -
  have ci: "index_or_0 [''Tunis''] ''Tunis'' = Inr 0" by (simp add: index_or_0_def)
  have cty: "st_selectbox ''City'' [''Tunis''] 0 None =
      ([St_selectbox ''City'' [''Tunis''] 0], Inr (Some ''Tunis''))"
    by (simp add: st_selectbox_in_range)
  have regs: "getitem [''Tunis'' \<mapsto> [''Autres villes'']] (Some ''Tunis'') = Inr [''Autres villes'']"
    by (simp add: getitem_def)
  have ri: "index_or_0 [''Autres villes''] ''Autres villes'' = Inr 0" by (simp add: index_or_0_def)
  have reg: "st_selectbox ''Region'' [''Autres villes''] 0 None =
      ([St_selectbox ''Region'' [''Autres villes''] 0], Inr (Some ''Autres villes''))"
    by (simp add: st_selectbox_in_range)
  show ?thesis
    by (subst property_form_ok [where ci = 0 and cty = "Some ''Tunis''"
          and regions = "[''Autres villes'']" and ri = 0 and reg = "Some ''Autres villes''"])
       (simp_all add: ci cty regs ri reg category_options_def type_options_def)
qed

text \<open>
  A pick made in the Region selector of another city does not count, and a number
  outside the bounds is not returned.
\<close>

lemma ex_stale_pick:
  "st_selectbox ''Region'' [''Ennasr'', ''La Marsa''] 0
     (Some ([''Ain Zaghouan'', ''Autres villes'', ''La Marsa''], 1, ''La Marsa'')) =
   ([St_selectbox ''Region'' [''Ennasr'', ''La Marsa''] 0], Inr (Some ''Ennasr''))"
  by (simp add: st_selectbox_in_range)

lemma ex_outside_bounds:
  "st_number_input size_label 20 1000 100 5 (Some 0) =
     ([St_number_input size_label 20 1000 100 5], Inr 100)"
  "st_slider ''Number of Rooms'' 0 10 2 1 (Some (- 1)) =
     ([St_slider ''Number of Rooms'' 0 10 2 1], Inr 2)"
  by (simp_all add: st_number_input_eq st_slider_eq)

lemma ex_build_index_two:
  "build_index
     \<lparr>columns = [''category'', ''city'', ''region'', ''price''],
      records = [\<lparr>rec_city = ''Tunis'', rec_region = ''La Marsa''\<rparr>,
                 \<lparr>rec_city = ''Ariana'', rec_region = ''Ennasr''\<rparr>,
                 \<lparr>rec_city = ''Tunis'', rec_region = ''Autres villes''\<rparr>,
                 \<lparr>rec_city = ''Tunis'', rec_region = ''Ain Zaghouan''\<rparr>,
                 \<lparr>rec_city = ''Tunis'', rec_region = ''La Marsa''\<rparr>]\<rparr> =
   Inr ([''Ariana'', ''Tunis''],
        [''Ariana'' \<mapsto> [''Ennasr''],
         ''Tunis'' \<mapsto> [''Ain Zaghouan'', ''Autres villes'', ''La Marsa'']])"
  by (simp add: build_index_def df_city_def df_region_of_city_def sorted_py_def)

section \<open>The claims\<close>

text \<open>
  C1. A submission that passes both checks (\<open>size > 0\<close>, both counts at least 0)
  hands the model exactly one table. Its columns are, in this order, category,
  room_count, bathroom_count, size, type, city and region; each column has one cell, and
  the cell is the value the form variable of that name holds.
\<close>

theorem feature_row_assembled:
  assumes "submitted fv" "0 < size_m2 fv" "0 \<le> room_count fv" "0 \<le> bathroom_count fv"
  shows "filter is_predict (fst (process_submission mdl fv)) =
           [Model_predict
              [(''category'', [cell (category fv)]),
               (''room_count'', [PyFloat (room_count fv)]),
               (''bathroom_count'', [PyFloat (bathroom_count fv)]),
               (''size'', [PyFloat (size_m2 fv)]),
               (''type'', [cell (type_property fv)]),
               (''city'', [cell (city fv)]),
               (''region'', [cell (region fv)])]]"
proof -
  from process_valid_head [OF assms, of mdl] obtain rest r where
    p: "process_submission mdl fv = (Model_predict (input_data fv) # rest, r)"
    and n: "\<forall>ev\<in>set rest. \<not> is_predict ev" by blast
  from n have "filter is_predict rest = []" by (simp add: filter_empty_conv)
  with p show ?thesis by (simp add: is_predict_def input_data_def)
qed

theorem feature_row_assembled_witness:
  "filter is_predict (fst (process_submission (\<lambda>t. Inr 250000)
      \<lparr>category = Some ''Appartements'', type_property = Some a_vendre, city = Some ''Tunis'',
       region = Some ''Autres villes'', room_count = 2, bathroom_count = 1, size_m2 = 100,
       submitted = True\<rparr>)) =
   [Model_predict
      [(''category'', [PyStr ''Appartements'']),
       (''room_count'', [PyFloat 2]),
       (''bathroom_count'', [PyFloat 1]),
       (''size'', [PyFloat 100]),
       (''type'', [PyStr a_vendre]),
       (''city'', [PyStr ''Tunis'']),
       (''region'', [PyStr ''Autres villes''])]]"
  using feature_row_assembled [of
      "\<lparr>category = Some ''Appartements'', type_property = Some a_vendre, city = Some ''Tunis'',
       region = Some ''Autres villes'', room_count = 2, bathroom_count = 1, size_m2 = 100,
       submitted = True\<rparr>" "\<lambda>t. Inr 250000"]
  by (simp add: cell_def)

text \<open>
  C2. On a submission with \<open>size \<le> 0\<close> the run shows the error about the size and
  nothing else; with \<open>size > 0\<close> and a negative room or bathroom count it shows the
  error about the counts and nothing else; the model is called if and only if both
  checks pass. The two messages are the spec's texts followed by a full stop.
\<close>

theorem validation_blocks_prediction:
  assumes "submitted fv"
  shows "(size_m2 fv \<le> 0 \<longrightarrow>
            process_submission mdl fv = ([St_error ''Size must be greater than 0.''], Inr ())) \<and>
         (0 < size_m2 fv \<and> (room_count fv < 0 \<or> bathroom_count fv < 0) \<longrightarrow>
            process_submission mdl fv =
              ([St_error ''Room count and bathroom count cannot be negative.''], Inr ())) \<and>
         ((\<exists>ev\<in>set (fst (process_submission mdl fv)). is_predict ev) \<longleftrightarrow>
            0 < size_m2 fv \<and> 0 \<le> room_count fv \<and> 0 \<le> bathroom_count fv)"
proof -
  have 1: "process_submission mdl fv = ([St_error ''Size must be greater than 0.''], Inr ())"
    if "size_m2 fv \<le> 0"
    using process_size_error [OF assms that, of mdl] by (simp add: size_error_def)
  have 2: "process_submission mdl fv =
              ([St_error ''Room count and bathroom count cannot be negative.''], Inr ())"
    if "0 < size_m2 fv" "room_count fv < 0 \<or> bathroom_count fv < 0"
    using process_count_error [OF assms that, of mdl] by (simp add: count_error_def)
  have 3: "\<exists>ev\<in>set (fst (process_submission mdl fv)). is_predict ev"
    if "0 < size_m2 fv" "0 \<le> room_count fv" "0 \<le> bathroom_count fv"
  proof -
    from process_valid_head [OF assms that, of mdl] obtain rest r where
      "process_submission mdl fv = (Model_predict (input_data fv) # rest, r)" by blast
    then show ?thesis by (simp add: is_predict_def)
  qed
  have 4: "\<not> (\<exists>ev\<in>set (fst (process_submission mdl fv)). is_predict ev)"
    if "\<not> (0 < size_m2 fv \<and> 0 \<le> room_count fv \<and> 0 \<le> bathroom_count fv)"
  proof (cases "size_m2 fv \<le> 0")
    case True
    then show ?thesis using 1 by (simp add: is_predict_def)
  next
    case False
    with that have "0 < size_m2 fv" "room_count fv < 0 \<or> bathroom_count fv < 0" by auto
    then show ?thesis using 2 by (simp add: is_predict_def)
  qed
  show ?thesis using 1 2 3 4 by blast
qed

theorem validation_blocks_prediction_witness:
  "process_submission (\<lambda>t. Inr 250000)
      \<lparr>category = Some ''Villas'', type_property = Some a_vendre, city = Some ''Tunis'',
       region = Some ''Autres villes'', room_count = 2, bathroom_count = 1, size_m2 = 0,
       submitted = True\<rparr> = ([St_error ''Size must be greater than 0.''], Inr ()) \<and>
   process_submission (\<lambda>t. Inr 250000)
      \<lparr>category = Some ''Villas'', type_property = Some a_vendre, city = Some ''Tunis'',
       region = Some ''Autres villes'', room_count = - 1, bathroom_count = 1, size_m2 = 100,
       submitted = True\<rparr> =
     ([St_error ''Room count and bathroom count cannot be negative.''], Inr ())"
  using validation_blocks_prediction [of
      "\<lparr>category = Some ''Villas'', type_property = Some a_vendre, city = Some ''Tunis'',
       region = Some ''Autres villes'', room_count = 2, bathroom_count = 1, size_m2 = 0,
       submitted = True\<rparr>" "\<lambda>t. Inr 250000"]
    validation_blocks_prediction [of
      "\<lparr>category = Some ''Villas'', type_property = Some a_vendre, city = Some ''Tunis'',
       region = Some ''Autres villes'', room_count = - 1, bathroom_count = 1, size_m2 = 100,
       submitted = True\<rparr>" "\<lambda>t. Inr 250000"]
  by simp

text \<open>
  C3. When the model returns a price, the price is shown and this part of the run ends
  normally. The warning about a high rent is shown if and only if the type is the rent
  option and the price is above 10000; the warning about a low sale price if and only if
  the type is the sale option and the price is below 10000; no other warning is shown.
\<close>

theorem anomaly_warning_iff:
  assumes "submitted fv" "0 < size_m2 fv" "0 \<le> room_count fv" "0 \<le> bathroom_count fv"
    and "mdl (input_data fv) = Inr p"
  shows "snd (process_submission mdl fv) = Inr () \<and>
         St_success p \<in> set (fst (process_submission mdl fv)) \<and>
         (St_warning high_rent_warning \<in> set (fst (process_submission mdl fv)) \<longleftrightarrow>
            type_property fv = Some a_louer \<and> 10000 < p) \<and>
         (St_warning low_sale_warning \<in> set (fst (process_submission mdl fv)) \<longleftrightarrow>
            type_property fv = Some a_vendre \<and> p < 10000) \<and>
         (\<forall>w. St_warning w \<in> set (fst (process_submission mdl fv)) \<longrightarrow>
            w = high_rent_warning \<or> w = low_sale_warning)"
proof -
  have hl: "high_rent_warning \<noteq> low_sale_warning"
    by (simp add: high_rent_warning_def low_sale_warning_def)
  from assms have
    "process_submission mdl fv =
       (Model_predict (input_data fv) # fst (show_price (type_property fv) p), Inr ())"
    by (rule process_predicted)
  then have f: "fst (process_submission mdl fv) =
       Model_predict (input_data fv) # St_success p #
       St_markdown (if type_property fv = Some a_louer then rental_label else purchase_label) #
       (if type_property fv = Some a_louer \<and> 10000 < p then [St_warning high_rent_warning]
        else if type_property fv = Some a_vendre \<and> p < 10000 then [St_warning low_sale_warning]
        else [])"
    and s: "snd (process_submission mdl fv) = Inr ()"
    by (simp_all add: show_price_eq)
  have vl: "a_vendre \<noteq> a_louer" using a_louer_neq_a_vendre by simp
  show ?thesis
    unfolding f s by (simp add: hl hl [symmetric] a_louer_neq_a_vendre vl)
qed

theorem anomaly_warning_iff_witness:
  "St_success 15000 \<in> set (fst (process_submission (\<lambda>t. Inr 15000)
      \<lparr>category = Some ''Appartements'', type_property = Some a_louer, city = Some ''Tunis'',
       region = Some ''Autres villes'', room_count = 2, bathroom_count = 1, size_m2 = 100,
       submitted = True\<rparr>)) \<and>
   St_warning high_rent_warning \<in> set (fst (process_submission (\<lambda>t. Inr 15000)
      \<lparr>category = Some ''Appartements'', type_property = Some a_louer, city = Some ''Tunis'',
       region = Some ''Autres villes'', room_count = 2, bathroom_count = 1, size_m2 = 100,
       submitted = True\<rparr>)) \<and>
   St_warning low_sale_warning \<in> set (fst (process_submission (\<lambda>t. Inr 5000)
      \<lparr>category = Some ''Appartements'', type_property = Some a_vendre, city = Some ''Tunis'',
       region = Some ''Autres villes'', room_count = 2, bathroom_count = 1, size_m2 = 100,
       submitted = True\<rparr>))"
proof -
  let ?rent = "\<lparr>category = Some ''Appartements'', type_property = Some a_louer,
       city = Some ''Tunis'', region = Some ''Autres villes'', room_count = 2,
       bathroom_count = 1, size_m2 = 100, submitted = True\<rparr>"
  let ?sale = "\<lparr>category = Some ''Appartements'', type_property = Some a_vendre,
       city = Some ''Tunis'', region = Some ''Autres villes'', room_count = 2,
       bathroom_count = 1, size_m2 = 100, submitted = True\<rparr>"
  have r: "submitted ?rent" "0 < size_m2 ?rent" "0 \<le> room_count ?rent"
    "0 \<le> bathroom_count ?rent" "(\<lambda>t. Inr 15000) (input_data ?rent) = Inr 15000"
    by simp_all
  have s: "submitted ?sale" "0 < size_m2 ?sale" "0 \<le> room_count ?sale"
    "0 \<le> bathroom_count ?sale" "(\<lambda>t. Inr 5000) (input_data ?sale) = Inr 5000"
    by simp_all
  have tr: "type_property ?rent = Some a_louer \<and> (10000::real) < 15000" by simp
  have ts: "type_property ?sale = Some a_vendre \<and> (5000::real) < 10000" by simp
  from anomaly_warning_iff [OF r] tr anomaly_warning_iff [OF s] ts show ?thesis by blast
qed

text \<open>
  C4. When the model returns a price, exactly one label line is shown: the one about the
  monthly rental price when the type is the rent option, the one about the purchase price
  when it is the sale option, and never a third text.
\<close>

theorem result_label:
  assumes "submitted fv" "0 < size_m2 fv" "0 \<le> room_count fv" "0 \<le> bathroom_count fv"
    and "mdl (input_data fv) = Inr p"
  shows "(type_property fv = Some a_louer \<longrightarrow>
            (\<forall>m. St_markdown m \<in> set (fst (process_submission mdl fv)) \<longleftrightarrow>
                 m = ''This is an **estimated monthly rental price**.'')) \<and>
         (type_property fv = Some a_vendre \<longrightarrow>
            (\<forall>m. St_markdown m \<in> set (fst (process_submission mdl fv)) \<longleftrightarrow>
                 m = ''This is an **estimated purchase price**.'')) \<and>
         (\<exists>m. filter (\<lambda>ev. \<exists>m. ev = St_markdown m) (fst (process_submission mdl fv)) = [St_markdown m] \<and>
              (m = ''This is an **estimated monthly rental price**.'' \<or>
               m = ''This is an **estimated purchase price**.''))"
proof -
  from assms have
    "process_submission mdl fv =
       (Model_predict (input_data fv) # fst (show_price (type_property fv) p), Inr ())"
    by (rule process_predicted)
  then show ?thesis
    using a_louer_neq_a_vendre
    by (auto simp: show_price_eq rental_label_def purchase_label_def)
qed

theorem result_label_witness:
  "St_markdown ''This is an **estimated monthly rental price**.'' \<in>
     set (fst (process_submission (\<lambda>t. Inr 900)
      \<lparr>category = Some ''Appartements'', type_property = Some a_louer, city = Some ''Tunis'',
       region = Some ''Autres villes'', room_count = 2, bathroom_count = 1, size_m2 = 100,
       submitted = True\<rparr>)) \<and>
   St_markdown ''This is an **estimated purchase price**.'' \<in>
     set (fst (process_submission (\<lambda>t. Inr 250000)
      \<lparr>category = Some ''Appartements'', type_property = Some a_vendre, city = Some ''Tunis'',
       region = Some ''Autres villes'', room_count = 2, bathroom_count = 1, size_m2 = 100,
       submitted = True\<rparr>))"
  using result_label [of
      "\<lparr>category = Some ''Appartements'', type_property = Some a_louer, city = Some ''Tunis'',
       region = Some ''Autres villes'', room_count = 2, bathroom_count = 1, size_m2 = 100,
       submitted = True\<rparr>" "\<lambda>t. Inr 900" 900]
    result_label [of
      "\<lparr>category = Some ''Appartements'', type_property = Some a_vendre, city = Some ''Tunis'',
       region = Some ''Autres villes'', room_count = 2, bathroom_count = 1, size_m2 = 100,
       submitted = True\<rparr>" "\<lambda>t. Inr 250000" 250000]
  by simp

text \<open>
  C5. When the dataset has the columns \<^verbatim>\<open>city\<close> and \<^verbatim>\<open>region\<close>, building the
  index succeeds. The list of cities is sorted, free of duplicates, and holds exactly the
  cities of the rows. For every city of the dataset the index holds a list of regions that
  is not empty, sorted, free of duplicates, and holds exactly the regions of the rows of
  that city. Sorted means sorted in the lexicographic order of the strings.
\<close>

theorem city_region_index:
  assumes "''city'' \<in> set (columns df)" "''region'' \<in> set (columns df)"
  shows "\<exists>cities c2r.
           build_index df = Inr (cities, c2r) \<and>
           sorted cities \<and> distinct cities \<and> set cities = rec_city ` set (records df) \<and>
           (\<forall>c\<in>rec_city ` set (records df).
              \<exists>rs. c2r c = Some rs \<and> rs \<noteq> [] \<and> sorted rs \<and> distinct rs \<and>
                   set rs = {rec_region r | r. r \<in> set (records df) \<and> rec_city r = c})"
proof -
  from build_index_ok [OF assms] obtain cities c2r where
    b: "build_index df = Inr (cities, c2r)" "sorted cities" "distinct cities"
       "set cities = rec_city ` set (records df)"
    and r: "\<forall>c\<in>set cities. \<exists>rs. c2r c = Some rs \<and> rs \<noteq> [] \<and> sorted rs \<and> distinct rs \<and>
               set rs = {rec_region r | r. r \<in> set (records df) \<and> rec_city r = c}"
    by blast
  from r b(4) have "\<forall>c\<in>rec_city ` set (records df).
              \<exists>rs. c2r c = Some rs \<and> rs \<noteq> [] \<and> sorted rs \<and> distinct rs \<and>
                   set rs = {rec_region r | r. r \<in> set (records df) \<and> rec_city r = c}"
    by simp
  with b show ?thesis by blast
qed

theorem city_region_index_witness:
  "\<exists>cities c2r.
     build_index
       \<lparr>columns = [''category'', ''city'', ''region'', ''price''],
        records = [\<lparr>rec_city = ''Tunis'', rec_region = ''La Marsa''\<rparr>,
                   \<lparr>rec_city = ''Ariana'', rec_region = ''Ennasr''\<rparr>,
                   \<lparr>rec_city = ''Tunis'', rec_region = ''Autres villes''\<rparr>,
                   \<lparr>rec_city = ''Tunis'', rec_region = ''La Marsa''\<rparr>]\<rparr> = Inr (cities, c2r) \<and>
     sorted cities \<and> set cities = {''Ariana'', ''Tunis''} \<and>
     (\<exists>rs. c2r ''Tunis'' = Some rs \<and> rs \<noteq> [] \<and> sorted rs \<and> distinct rs \<and>
           set rs = {''Autres villes'', ''La Marsa''})"
proof -
  let ?df = "\<lparr>columns = [''category'', ''city'', ''region'', ''price''],
        records = [\<lparr>rec_city = ''Tunis'', rec_region = ''La Marsa''\<rparr>,
                   \<lparr>rec_city = ''Ariana'', rec_region = ''Ennasr''\<rparr>,
                   \<lparr>rec_city = ''Tunis'', rec_region = ''Autres villes''\<rparr>,
                   \<lparr>rec_city = ''Tunis'', rec_region = ''La Marsa''\<rparr>]\<rparr>"
  have c: "''city'' \<in> set (columns ?df)" "''region'' \<in> set (columns ?df)" by simp_all
  have s: "rec_city ` set (records ?df) = {''Ariana'', ''Tunis''}" by auto
  have g: "{rec_region r | r. r \<in> set xs \<and> rec_city r = c} =
           set (map rec_region (filter (\<lambda>r. rec_city r = c) xs))" for xs c
    by auto
  have t: "{rec_region r | r. r \<in> set (records ?df) \<and> rec_city r = ''Tunis''} =
           {''Autres villes'', ''La Marsa''}"
    unfolding g by auto
  from city_region_index [OF c] obtain cities c2r where
    b: "build_index ?df = Inr (cities, c2r)" "sorted cities"
       "set cities = rec_city ` set (records ?df)"
    and r: "\<forall>c\<in>rec_city ` set (records ?df).
              \<exists>rs. c2r c = Some rs \<and> rs \<noteq> [] \<and> sorted rs \<and> distinct rs \<and>
                   set rs = {rec_region r | r. r \<in> set (records ?df) \<and> rec_city r = c}"
    by blast
  have "''Tunis'' \<in> rec_city ` set (records ?df)" unfolding s by simp
  with r have "\<exists>rs. c2r ''Tunis'' = Some rs \<and> rs \<noteq> [] \<and> sorted rs \<and> distinct rs \<and>
                   set rs = {rec_region r | r. r \<in> set (records ?df) \<and> rec_city r = ''Tunis''}"
    by blast
  with b s t show ?thesis by auto
qed

text \<open>
  C6. When the call of the model raises an exception of class \<^verbatim>\<open>Exception\<close> on a
  valid submission, the handler shows an error whose text ends with the text of the
  exception, and the run goes on to the end of the script: after the form, the calls of
  the run are the call of the model, that error and the footer, and the run ends
  normally.
\<close>

theorem predict_error_reported:
  assumes "joblib_load s = Inr mdl" "read_csv s = Inr df"
    and "build_index df = Inr (cities, c2r)"
    and "property_form cities c2r (widgets s) = (evs, Inr fv)"
    and "submitted fv" "0 < size_m2 fv" "0 \<le> room_count fv" "0 \<le> bathroom_count fv"
    and "mdl (input_data fv) = Inl e" "isinstance_Exception e"
  shows "process_submission mdl fv =
           ([Model_predict (input_data fv),
             St_error (''Error making prediction: '' @ str e)], Inr ()) \<and>
         run_app s =
           (Page_header # evs @
            [Model_predict (input_data fv),
             St_error (''Error making prediction: '' @ str e),
             Page_footer], Inr ())"
proof -
  from assms(5-10) have p: "process_submission mdl fv =
           ([Model_predict (input_data fv),
             St_error (''Error making prediction: '' @ str e)], Inr ())"
    by (rule process_caught)
  from assms(1-3) have "run_app s =
     then_run ([Page_header], Inr ()) (\<lambda>_.
     then_run (property_form cities c2r (widgets s)) (\<lambda>fv.
     then_run (process_submission mdl fv) (\<lambda>_. emit Page_footer)))"
    by (rule run_app_loaded)
  with p assms(4) show ?thesis
    by (simp add: then_run_Inr emit_def)
qed

theorem predict_error_reported_witness:
  "run_app
     \<lparr>joblib_load = Inr (\<lambda>t. Inl (PyExc ValueError ''feature shape mismatch'')),
      read_csv = Inr \<lparr>columns = [''city'', ''region''],
                      records = [\<lparr>rec_city = ''Tunis'', rec_region = ''Autres villes''\<rparr>]\<rparr>,
      widgets = \<lparr>sel_category = None, sel_type_property = None, sel_city = None,
                 sel_region = None, val_room_count = None, val_bathroom_count = None,
                 val_size = None, clicked = True\<rparr>\<rparr> =
   ([Page_header,
     St_subheader subheader_label,
     St_selectbox ''Category'' category_options 0,
     St_selectbox ''Type'' type_options 0,
     St_selectbox ''City'' [''Tunis''] 0,
     St_selectbox ''Region'' [''Autres villes''] 0,
     St_slider ''Number of Rooms'' 0 10 2 1,
     St_slider ''Number of Bathrooms'' 0 5 1 1,
     St_number_input size_label 20 1000 100 5,
     St_form_submit_button submit_label,
     Model_predict
       [(''category'', [PyStr ''Appartements'']),
        (''room_count'', [PyFloat 2]),
        (''bathroom_count'', [PyFloat 1]),
        (''size'', [PyFloat 100]),
        (''type'', [PyStr a_louer]),
        (''city'', [PyStr ''Tunis'']),
        (''region'', [PyStr ''Autres villes''])],
     St_error ''Error making prediction: feature shape mismatch'',
     Page_footer],
    Inr ())"
proof -
  let ?mdl = "\<lambda>t::feature_table. Inl (PyExc ValueError ''feature shape mismatch'') :: py_exc + real"
  let ?df = "\<lparr>columns = [''city'', ''region''],
                      records = [\<lparr>rec_city = ''Tunis'', rec_region = ''Autres villes''\<rparr>]\<rparr>"
  let ?w = "\<lparr>sel_category = None, sel_type_property = None, sel_city = None,
                 sel_region = None, val_room_count = None, val_bathroom_count = None,
                 val_size = None, clicked = True\<rparr>"
  let ?s = "\<lparr>joblib_load = Inr ?mdl, read_csv = Inr ?df, widgets = ?w\<rparr>"
  let ?fv = "\<lparr>category = Some ''Appartements'', type_property = Some a_louer,
          city = Some ''Tunis'', region = Some ''Autres villes'',
          room_count = 2, bathroom_count = 1, size_m2 = 100, submitted = True\<rparr>"
  have l: "joblib_load ?s = Inr ?mdl" "read_csv ?s = Inr ?df" by simp_all
  have f: "property_form [''Tunis''] [''Tunis'' \<mapsto> [''Autres villes'']] (widgets ?s) =
    ([St_subheader subheader_label,
      St_selectbox ''Category'' category_options 0,
      St_selectbox ''Type'' type_options 0,
      St_selectbox ''City'' [''Tunis''] 0,
      St_selectbox ''Region'' [''Autres villes''] 0,
      St_slider ''Number of Rooms'' 0 10 2 1,
      St_slider ''Number of Bathrooms'' 0 5 1 1,
      St_number_input size_label 20 1000 100 5,
      St_form_submit_button submit_label], Inr ?fv)"
    using ex_property_form by simp
  have v: "submitted ?fv" "0 < size_m2 ?fv" "0 \<le> room_count ?fv" "0 \<le> bathroom_count ?fv"
    by simp_all
  have m: "?mdl (input_data ?fv) = Inl (PyExc ValueError ''feature shape mismatch'')"
    "isinstance_Exception (PyExc ValueError ''feature shape mismatch'')"
    by simp_all
  from predict_error_reported [OF l ex_build_index f v m] show ?thesis
    by (simp add: input_data_def cell_def)
qed

text \<open>
  C7. When loading the model file raises \<^verbatim>\<open>FileNotFoundError\<close>, the run shows the
  error about the model file and stops: no widget of the form is reached and the model is
  never called.
\<close>

theorem missing_model_halts:
  assumes "joblib_load s = Inl e" "isinstance_FileNotFoundError e"
  shows "run_app s =
           ([Page_header,
             St_error (''Model file '' @ quoted ''property_price_model.pkl'' @
                       '' not found. Please ensure it is in the same directory.'')],
            Inl Stopped) \<and>
         (\<forall>ev\<in>set (fst (run_app s)). \<not> is_widget ev \<and> \<not> is_predict ev)"
  using run_app_model_missing [OF assms]
  by (simp add: model_error_def is_widget_def is_predict_def)

theorem missing_model_halts_witness:
  "run_app \<lparr>joblib_load = Inl (PyExc FileNotFoundError ''No such file or directory''),
            read_csv = Inr \<lparr>columns = [''city'', ''region''],
                            records = [\<lparr>rec_city = ''Tunis'', rec_region = ''Autres villes''\<rparr>]\<rparr>,
            widgets = \<lparr>sel_category = None, sel_type_property = None, sel_city = None,
                       sel_region = None, val_room_count = None, val_bathroom_count = None,
                       val_size = None, clicked = True\<rparr>\<rparr> =
     ([Page_header,
       St_error (''Model file '' @ quoted ''property_price_model.pkl'' @
                 '' not found. Please ensure it is in the same directory.'')],
      Inl Stopped)"
  using missing_model_halts [of
     "\<lparr>joblib_load = Inl (PyExc FileNotFoundError ''No such file or directory''),
            read_csv = Inr \<lparr>columns = [''city'', ''region''],
                            records = [\<lparr>rec_city = ''Tunis'', rec_region = ''Autres villes''\<rparr>]\<rparr>,
            widgets = \<lparr>sel_category = None, sel_type_property = None, sel_city = None,
                       sel_region = None, val_room_count = None, val_bathroom_count = None,
                       val_size = None, clicked = True\<rparr>\<rparr>"
     "PyExc FileNotFoundError ''No such file or directory''"]
  by simp

text \<open>
  C8. When reading the dataset raises, or the data frame read lacks a column the index
  needs, the run halts before any widget of the form and without calling the model; the
  dataset is read once. When the model file loaded, the run ends with that very
  exception, uncaught, right after the page header; Streamlit puts an uncaught exception
  on the page.
\<close>

theorem unreadable_dataset_halts:
  assumes "read_csv s = Inl e \<or> (\<exists>df. read_csv s = Inr df \<and> build_index df = Inl e)"
  shows "(\<exists>evs h. run_app s = (evs, Inl h) \<and>
            (\<forall>ev\<in>set evs. \<not> is_widget ev \<and> \<not> is_predict ev)) \<and>
         (\<forall>mdl. joblib_load s = Inr mdl \<longrightarrow> run_app s = ([Page_header], Inl (Uncaught e)))"
proof (cases "joblib_load s")
  case (Inl e')
  show ?thesis
  proof (cases "isinstance_FileNotFoundError e'")
    case True
    from Inl True have "run_app s = ([Page_header, St_error model_error], Inl Stopped)"
      by (rule run_app_model_missing)
    with Inl show ?thesis by (simp add: is_widget_def is_predict_def)
  next
    case False
    from Inl False have "run_app s = ([Page_header], Inl (Uncaught e'))"
      by (rule run_app_model_unreadable)
    with Inl show ?thesis by (simp add: is_widget_def is_predict_def)
  qed
next
  case (Inr mdl)
  from assms have "run_app s = ([Page_header], Inl (Uncaught e))"
  proof
    assume "read_csv s = Inl e"
    with Inr show ?thesis by (rule run_app_dataset_unreadable)
  next
    assume "\<exists>df. read_csv s = Inr df \<and> build_index df = Inl e"
    then obtain df where "read_csv s = Inr df" "build_index df = Inl e" by auto
    with Inr show ?thesis by (rule run_app_index_fails)
  qed
  with Inr show ?thesis by (simp add: is_widget_def is_predict_def)
qed

theorem unreadable_dataset_halts_witness:
  "run_app \<lparr>joblib_load = Inr (\<lambda>t. Inr 250000),
            read_csv = Inl (PyExc FileNotFoundError ''No such file or directory''),
            widgets = \<lparr>sel_category = None, sel_type_property = None, sel_city = None,
                       sel_region = None, val_room_count = None, val_bathroom_count = None,
                       val_size = None, clicked = True\<rparr>\<rparr> =
     ([Page_header], Inl (Uncaught (PyExc FileNotFoundError ''No such file or directory''))) \<and>
   run_app \<lparr>joblib_load = Inr (\<lambda>t. Inr 250000),
            read_csv = Inr \<lparr>columns = [''price'', ''region''],
                            records = [\<lparr>rec_city = [], rec_region = ''La Marsa''\<rparr>]\<rparr>,
            widgets = \<lparr>sel_category = None, sel_type_property = None, sel_city = None,
                       sel_region = None, val_room_count = None, val_bathroom_count = None,
                       val_size = None, clicked = True\<rparr>\<rparr> =
     ([Page_header], Inl (Uncaught (PyExc KeyError (quoted ''city''))))"
proof -
  let ?w = "\<lparr>sel_category = None, sel_type_property = None, sel_city = None,
             sel_region = None, val_room_count = None, val_bathroom_count = None,
             val_size = None, clicked = True\<rparr>"
  let ?mdl = "\<lambda>t::feature_table. Inr 250000 :: py_exc + real"
  let ?e = "PyExc FileNotFoundError ''No such file or directory''"
  let ?df = "\<lparr>columns = [''price'', ''region''],
              records = [\<lparr>rec_city = [], rec_region = ''La Marsa''\<rparr>]\<rparr>"
  let ?s1 = "\<lparr>joblib_load = Inr ?mdl, read_csv = Inl ?e, widgets = ?w\<rparr>"
  let ?s2 = "\<lparr>joblib_load = Inr ?mdl, read_csv = Inr ?df, widgets = ?w\<rparr>"
  have h1: "read_csv ?s1 = Inl ?e \<or> (\<exists>df. read_csv ?s1 = Inr df \<and> build_index df = Inl ?e)"
    by simp
  have "build_index ?df = Inl (PyExc KeyError (quoted ''city''))"
    by (rule build_index_no_city) simp
  then have h2: "read_csv ?s2 = Inl (PyExc KeyError (quoted ''city'')) \<or>
      (\<exists>df. read_csv ?s2 = Inr df \<and> build_index df = Inl (PyExc KeyError (quoted ''city'')))"
    by simp
  have m: "joblib_load ?s1 = Inr ?mdl" "joblib_load ?s2 = Inr ?mdl" by simp_all
  from unreadable_dataset_halts [OF h1] m(1)
  have 1: "run_app ?s1 = ([Page_header], Inl (Uncaught ?e))" by blast
  from unreadable_dataset_halts [OF h2] m(2)
  have 2: "run_app ?s2 = ([Page_header], Inl (Uncaught (PyExc KeyError (quoted ''city''))))"
    by blast
  from 1 2 show ?thesis by (rule conjI)
qed

text \<open>
  C9. For a dataset with the two columns and at least one row, the form is rendered in
  full. The city the City selector returns is a city of the dataset; while the selector
  is untouched it is Tunis if Tunis is a city of the dataset, and the least city
  otherwise. The options of the Region selector are the index's regions of that city;
  the region it returns is one of them, and while the selector is untouched it is
  "Autres villes" if that is among them, and the least of them otherwise.
\<close>

theorem selector_defaults:
  assumes "''city'' \<in> set (columns df)" "''region'' \<in> set (columns df)"
    and "records df \<noteq> []"
  shows "\<exists>cities c2r evs fv c regions i r.
           build_index df = Inr (cities, c2r) \<and>
           property_form cities c2r w = (evs, Inr fv) \<and>
           city fv = Some c \<and> c \<in> rec_city ` set (records df) \<and>
           (sel_city w = None \<longrightarrow>
              (if ''Tunis'' \<in> rec_city ` set (records df) then c = ''Tunis''
               else \<forall>x\<in>rec_city ` set (records df). c \<le> x)) \<and>
           c2r c = Some regions \<and>
           St_selectbox ''Region'' regions i \<in> set evs \<and>
           region fv = Some r \<and> r \<in> set regions \<and>
           (sel_region w = None \<longrightarrow>
              (if ''Autres villes'' \<in> set regions then r = ''Autres villes''
               else \<forall>x\<in>set regions. r \<le> x))"
proof -
  from build_index_ok [OF assms(1,2)] obtain cities c2r where
    b: "build_index df = Inr (cities, c2r)" and sc: "sorted cities"
    and cs: "set cities = rec_city ` set (records df)"
    and rg: "\<forall>c\<in>set cities. \<exists>rs. c2r c = Some rs \<and> rs \<noteq> [] \<and> sorted rs \<and> distinct rs \<and>
               set rs = {rec_region r | r. r \<in> set (records df) \<and> rec_city r = c}"
    by (elim exE conjE) (rule that)
  from assms(3) cs have ne: "cities \<noteq> []" by auto
  from index_or_0_in_range [OF ne, of "''Tunis''"] obtain ci where
    ci: "index_or_0 cities ''Tunis'' = Inr ci" "ci < length cities"
        "if ''Tunis'' \<in> set cities then cities ! ci = ''Tunis'' else ci = 0"
    by (elim exE conjE) (rule that)
  from selectbox_choice [OF ne ci(2), of "''City''" "sel_city w"] obtain c where
    c: "st_selectbox ''City'' cities ci (sel_city w) = ([St_selectbox ''City'' cities ci], Inr (Some c))"
       "c \<in> set cities" "sel_city w = None \<longrightarrow> c = cities ! ci"
    by (elim exE conjE) (rule that)
  from rg c(2) obtain regions where
    rs: "c2r c = Some regions" "regions \<noteq> []" "sorted regions" by blast
  then have gi: "getitem c2r (Some c) = Inr regions" by (simp add: getitem_def)
  from index_or_0_in_range [OF rs(2), of "''Autres villes''"] obtain ri where
    ri: "index_or_0 regions ''Autres villes'' = Inr ri" "ri < length regions"
        "if ''Autres villes'' \<in> set regions then regions ! ri = ''Autres villes'' else ri = 0"
    by (elim exE conjE) (rule that)
  from selectbox_choice [OF rs(2) ri(2), of "''Region''" "sel_region w"] obtain r where
    r: "st_selectbox ''Region'' regions ri (sel_region w) =
          ([St_selectbox ''Region'' regions ri], Inr (Some r))"
       "r \<in> set regions" "sel_region w = None \<longrightarrow> r = regions ! ri"
    by (elim exE conjE) (rule that)
  have dc: "sel_city w = None \<longrightarrow>
              (if ''Tunis'' \<in> rec_city ` set (records df) then c = ''Tunis''
               else \<forall>x\<in>rec_city ` set (records df). c \<le> x)"
  proof
    assume "sel_city w = None"
    with c(3) have e: "c = cities ! ci" by simp
    show "if ''Tunis'' \<in> rec_city ` set (records df) then c = ''Tunis''
               else \<forall>x\<in>rec_city ` set (records df). c \<le> x"
    proof (cases "''Tunis'' \<in> set cities")
      case True
      with ci(3) e cs show ?thesis by simp
    next
      case False
      with ci(3) e have "c = cities ! 0" by simp
      with sorted_first_least [OF sc] False cs show ?thesis by auto
    qed
  qed
  have dr: "sel_region w = None \<longrightarrow>
              (if ''Autres villes'' \<in> set regions then r = ''Autres villes''
               else \<forall>x\<in>set regions. r \<le> x)"
  proof
    assume "sel_region w = None"
    with r(3) have e: "r = regions ! ri" by simp
    show "if ''Autres villes'' \<in> set regions then r = ''Autres villes''
               else \<forall>x\<in>set regions. r \<le> x"
    proof (cases "''Autres villes'' \<in> set regions")
      case True
      with ri(3) e show ?thesis by simp
    next
      case False
      with ri(3) e have "r = regions ! 0" by simp
      with sorted_first_least [OF rs(3)] False show ?thesis by auto
    qed
  qed
  from property_form_sel [OF ci(1) c(1) gi ri(1) r(1)] obtain evs fv where
    p: "property_form cities c2r w = (evs, Inr fv)"
    and ev: "St_selectbox ''Region'' regions ri \<in> set evs"
    and cf: "city fv = Some c" "region fv = Some r"
    by (elim exE conjE) (rule that)
  have "build_index df = Inr (cities, c2r) \<and>
           property_form cities c2r w = (evs, Inr fv) \<and>
           city fv = Some c \<and> c \<in> rec_city ` set (records df) \<and>
           (sel_city w = None \<longrightarrow>
              (if ''Tunis'' \<in> rec_city ` set (records df) then c = ''Tunis''
               else \<forall>x\<in>rec_city ` set (records df). c \<le> x)) \<and>
           c2r c = Some regions \<and>
           St_selectbox ''Region'' regions ri \<in> set evs \<and>
           region fv = Some r \<and> r \<in> set regions \<and>
           (sel_region w = None \<longrightarrow>
              (if ''Autres villes'' \<in> set regions then r = ''Autres villes''
               else \<forall>x\<in>set regions. r \<le> x))"
  proof (intro conjI)
    show "c \<in> rec_city ` set (records df)" using c(2) cs by simp
  qed (fact b p cf dc rs(1) ev r(2) dr)+
  then show ?thesis by - ((rule exI)+, assumption)
qed

theorem selector_defaults_witness:
  "\<exists>cities c2r evs fv regions i.
     build_index
       \<lparr>columns = [''category'', ''city'', ''region'', ''price''],
        records = [\<lparr>rec_city = ''Tunis'', rec_region = ''La Marsa''\<rparr>,
                   \<lparr>rec_city = ''Ariana'', rec_region = ''Ennasr''\<rparr>,
                   \<lparr>rec_city = ''Tunis'', rec_region = ''Autres villes''\<rparr>,
                   \<lparr>rec_city = ''Tunis'', rec_region = ''Ain Zaghouan''\<rparr>,
                   \<lparr>rec_city = ''Tunis'', rec_region = ''La Marsa''\<rparr>]\<rparr> = Inr (cities, c2r) \<and>
     property_form cities c2r
       \<lparr>sel_category = None, sel_type_property = None, sel_city = None,
        sel_region = None, val_room_count = None, val_bathroom_count = None,
        val_size = None, clicked = False\<rparr> = (evs, Inr fv) \<and>
     city fv = Some ''Tunis'' \<and>
     c2r ''Tunis'' = Some regions \<and>
     regions = [''Ain Zaghouan'', ''Autres villes'', ''La Marsa''] \<and>
     St_selectbox ''Region'' regions i \<in> set evs \<and>
     region fv = Some ''Autres villes''"
proof -
  let ?df = "\<lparr>columns = [''category'', ''city'', ''region'', ''price''],
        records = [\<lparr>rec_city = ''Tunis'', rec_region = ''La Marsa''\<rparr>,
                   \<lparr>rec_city = ''Ariana'', rec_region = ''Ennasr''\<rparr>,
                   \<lparr>rec_city = ''Tunis'', rec_region = ''Autres villes''\<rparr>,
                   \<lparr>rec_city = ''Tunis'', rec_region = ''Ain Zaghouan''\<rparr>,
                   \<lparr>rec_city = ''Tunis'', rec_region = ''La Marsa''\<rparr>]\<rparr>"
  let ?w = "\<lparr>sel_category = None, sel_type_property = None, sel_city = None,
        sel_region = None, val_room_count = None, val_bathroom_count = None,
        val_size = None, clicked = False\<rparr>"
  have h: "''city'' \<in> set (columns ?df)" "''region'' \<in> set (columns ?df)" "records ?df \<noteq> []"
    by simp_all
  have tu: "''Tunis'' \<in> rec_city ` set (records ?df)" by simp
  have n: "sel_city ?w = None" "sel_region ?w = None" by simp_all
  from selector_defaults [OF h, of ?w] obtain cities c2r evs fv c regions i r where
    b: "build_index ?df = Inr (cities, c2r)"
    and p: "property_form cities c2r ?w = (evs, Inr fv)"
    and c: "city fv = Some c"
    and dc: "sel_city ?w = None \<longrightarrow>
              (if ''Tunis'' \<in> rec_city ` set (records ?df) then c = ''Tunis''
               else \<forall>x\<in>rec_city ` set (records ?df). c \<le> x)"
    and rs: "c2r c = Some regions"
    and ev: "St_selectbox ''Region'' regions i \<in> set evs"
    and r: "region fv = Some r"
    and dr: "sel_region ?w = None \<longrightarrow>
              (if ''Autres villes'' \<in> set regions then r = ''Autres villes''
               else \<forall>x\<in>set regions. r \<le> x)"
    by (elim exE conjE) (rule that)
  from dc n(1) tu have ct: "c = ''Tunis''" by (simp only: if_True simp_thms)
  from b ex_build_index_two have
    m: "c2r = [''Ariana'' \<mapsto> [''Ennasr''],
               ''Tunis'' \<mapsto> [''Ain Zaghouan'', ''Autres villes'', ''La Marsa'']]"
    by simp
  from rs ct m have rg: "regions = [''Ain Zaghouan'', ''Autres villes'', ''La Marsa'']"
    by simp
  then have av: "''Autres villes'' \<in> set regions" by simp
  from dr n(2) av have rt: "r = ''Autres villes''" by (simp only: if_True simp_thms)
  have "build_index ?df = Inr (cities, c2r) \<and>
     property_form cities c2r ?w = (evs, Inr fv) \<and>
     city fv = Some ''Tunis'' \<and>
     c2r ''Tunis'' = Some regions \<and>
     regions = [''Ain Zaghouan'', ''Autres villes'', ''La Marsa''] \<and>
     St_selectbox ''Region'' regions i \<in> set evs \<and>
     region fv = Some ''Autres villes''"
    using b p c rs ev r rg unfolding ct rt by (intro conjI)
  then show ?thesis by - ((rule exI)+, assumption)
qed

text \<open>
  C10. Whatever the page holds for the three number widgets, the values the form hands
  on lie within the bounds the script gives the widgets (size from 20 to 1000, rooms from
  0 to 10, bathrooms from 0 to 5). So when the submit button was clicked, the submission
  calls the model first, and neither validation error is shown.
\<close>

theorem form_inputs_reach_prediction:
  assumes "property_form cities c2r w = (evs, Inr fv)" and "clicked w"
  shows "20 \<le> size_m2 fv \<and> size_m2 fv \<le> 1000 \<and>
         0 \<le> room_count fv \<and> room_count fv \<le> 10 \<and>
         0 \<le> bathroom_count fv \<and> bathroom_count fv \<le> 5 \<and>
         (\<exists>rest r. process_submission mdl fv = (Model_predict (input_data fv) # rest, r)) \<and>
         St_error ''Size must be greater than 0.'' \<notin> set (fst (process_submission mdl fv)) \<and>
         St_error ''Room count and bathroom count cannot be negative.''
           \<notin> set (fst (process_submission mdl fv))"
proof -
  from property_form_values [OF assms(1)] have
    rc: "0 \<le> room_count fv \<and> room_count fv \<le> 10"
    and bc: "0 \<le> bathroom_count fv \<and> bathroom_count fv \<le> 5"
    and sz: "20 \<le> size_m2 fv \<and> size_m2 fv \<le> 1000"
    and sb: "submitted fv = clicked w" by simp_all
  have sub: "submitted fv" using sb assms(2) by simp
  have pos: "0 < size_m2 fv" using sz by simp
  from process_valid_head [OF sub pos, of mdl] rc bc obtain rest r where
    p: "process_submission mdl fv = (Model_predict (input_data fv) # rest, r)" by blast
  have e: "St_error m \<notin> set (fst (process_submission mdl fv))"
    if "\<not> (\<exists>x. m = ''Error making prediction: '' @ x)" for m
  proof (cases "mdl (input_data fv)")
    case (Inl ex)
    show ?thesis
    proof (cases "isinstance_Exception ex")
      case True
      from sub pos conjunct1 [OF rc] conjunct1 [OF bc] Inl True have
        "process_submission mdl fv =
           ([Model_predict (input_data fv), St_error (''Error making prediction: '' @ str ex)], Inr ())"
        by (rule process_caught)
      with that show ?thesis by auto
    next
      case False
      from sub pos conjunct1 [OF rc] conjunct1 [OF bc] Inl False have
        "process_submission mdl fv = ([Model_predict (input_data fv)], Inl (Uncaught ex))"
        by (rule process_uncaught)
      then show ?thesis by simp
    qed
  next
    case (Inr pr)
    from sub pos conjunct1 [OF rc] conjunct1 [OF bc] Inr have
      "process_submission mdl fv =
       (Model_predict (input_data fv) # fst (show_price (type_property fv) pr), Inr ())"
      by (rule process_predicted)
    then show ?thesis by (simp add: show_price_eq)
  qed
  have e1: "St_error ''Size must be greater than 0.'' \<notin> set (fst (process_submission mdl fv))"
    by (rule e) simp
  have e2: "St_error ''Room count and bathroom count cannot be negative.''
           \<notin> set (fst (process_submission mdl fv))"
    by (rule e) simp
  from sz rc bc p e1 e2 show ?thesis by blast
qed

theorem form_inputs_reach_prediction_witness:
  "\<exists>rest r.
     process_submission (\<lambda>t. Inr 480000)
       \<lparr>category = Some ''Villas'', type_property = Some a_vendre,
        city = Some ''Tunis'', region = Some ''Autres villes'',
        room_count = 3, bathroom_count = 2, size_m2 = 250, submitted = True\<rparr> =
     (Model_predict
       [(''category'', [PyStr ''Villas'']),
        (''room_count'', [PyFloat 3]),
        (''bathroom_count'', [PyFloat 2]),
        (''size'', [PyFloat 250]),
        (''type'', [PyStr a_vendre]),
        (''city'', [PyStr ''Tunis'']),
        (''region'', [PyStr ''Autres villes''])] # rest, r)"
proof -
  let ?w = "\<lparr>sel_category = Some (category_options, 0, ''Villas''),
             sel_type_property = Some (type_options, 0, a_vendre),
             sel_city = None, sel_region = None, val_room_count = Some 3,
             val_bathroom_count = Some 2, val_size = Some 250, clicked = True\<rparr>"
  have c: "clicked ?w" by simp
  from form_inputs_reach_prediction [OF ex_property_form_set c, of "\<lambda>t. Inr 480000"]
  show ?thesis by (simp add: input_data_def cell_def)
qed

end
